theory Spec2Isabelle
  imports Complex_Main "HOL-Library.Sublist"
begin

section \<open>JavaScript values used by the route handlers\<close>

text \<open>
  Strings are lists of characters (code units below 256). Numbers are the JavaScript
  number type with its three special values; finite numbers are kept as exact rationals,
  so binary rounding and the sign of zero are not represented.
\<close>

datatype jsnum = Fin rat | PInf | NInf | NaN



text \<open>A query-string parameter is absent or a string; only the empty string is falsy.\<close>

definition given :: "string option \<Rightarrow> bool" where
  "given p = (case p of None \<Rightarrow> False | Some s \<Rightarrow> s \<noteq> [])"

subsection \<open>Arithmetic on numbers\<close>

fun jsnum_neg :: "jsnum \<Rightarrow> jsnum" where
  "jsnum_neg (Fin a) = Fin (- a)"
| "jsnum_neg PInf = NInf"
| "jsnum_neg NInf = PInf"
| "jsnum_neg NaN = NaN"

fun jsnum_add :: "jsnum \<Rightarrow> jsnum \<Rightarrow> jsnum" where
  "jsnum_add (Fin a) (Fin b) = Fin (a + b)"
| "jsnum_add (Fin a) PInf = PInf"
| "jsnum_add (Fin a) NInf = NInf"
| "jsnum_add PInf (Fin b) = PInf"
| "jsnum_add PInf PInf = PInf"
| "jsnum_add NInf (Fin b) = NInf"
| "jsnum_add NInf NInf = NInf"
| "jsnum_add _ _ = NaN"

definition jsnum_sub :: "jsnum \<Rightarrow> jsnum \<Rightarrow> jsnum" where
  "jsnum_sub a b = jsnum_add a (jsnum_neg b)"

text \<open>The sign of a number as \<open>-1\<close>, \<open>0\<close> or \<open>1\<close>; \<open>None\<close> for NaN.\<close>

fun jsnum_sign :: "jsnum \<Rightarrow> int option" where
  "jsnum_sign (Fin a) = Some (if a < 0 then - 1 else if a = 0 then 0 else 1)"
| "jsnum_sign PInf = Some 1"
| "jsnum_sign NInf = Some (- 1)"
| "jsnum_sign NaN = None"

definition signed_inf :: "int \<Rightarrow> jsnum" where
  "signed_inf s = (if s < 0 then NInf else if s = 0 then NaN else PInf)"

fun jsnum_mul :: "jsnum \<Rightarrow> jsnum \<Rightarrow> jsnum" where
  "jsnum_mul (Fin a) (Fin b) = Fin (a * b)"
| "jsnum_mul a b =
     (case (jsnum_sign a, jsnum_sign b) of
        (Some s, Some t) \<Rightarrow> signed_inf (s * t)
      | _ \<Rightarrow> NaN)"

fun jsnum_div :: "jsnum \<Rightarrow> jsnum \<Rightarrow> jsnum" where
  "jsnum_div (Fin a) (Fin b) =
     (if b = 0 then signed_inf (if a < 0 then - 1 else if a = 0 then 0 else 1)
      else Fin (a / b))"
| "jsnum_div (Fin a) PInf = Fin 0"
| "jsnum_div (Fin a) NInf = Fin 0"
| "jsnum_div PInf (Fin b) = (if b < 0 then NInf else PInf)"
| "jsnum_div NInf (Fin b) = (if b < 0 then PInf else NInf)"
| "jsnum_div NaN _ = NaN"
| "jsnum_div _ NaN = NaN"
| "jsnum_div PInf _ = NaN"
| "jsnum_div NInf _ = NaN"

text \<open>\<open>Math.ceil\<close>.\<close>

fun jsnum_ceil :: "jsnum \<Rightarrow> jsnum" where
  "jsnum_ceil (Fin a) = Fin (of_int \<lceil>a\<rceil>)"
| "jsnum_ceil x = x"

text \<open>Numeric \<open>\<le>\<close>; every comparison with NaN is false.\<close>

fun jsnum_le :: "jsnum \<Rightarrow> jsnum \<Rightarrow> bool" where
  "jsnum_le (Fin a) (Fin b) = (a \<le> b)"
| "jsnum_le (Fin a) PInf = True"
| "jsnum_le (Fin a) NInf = False"
| "jsnum_le NInf (Fin b) = True"
| "jsnum_le NInf PInf = True"
| "jsnum_le NInf NInf = True"
| "jsnum_le PInf PInf = True"
| "jsnum_le PInf (Fin b) = False"
| "jsnum_le PInf NInf = False"
| "jsnum_le NaN _ = False"
| "jsnum_le _ NaN = False"

subsection \<open>String operations\<close>

text \<open>
  White space and line terminators removed by \<open>String.prototype.trim\<close> and skipped by
  the string-to-number conversion: TAB, LF, VT, FF, CR, space and NBSP.
\<close>

definition is_space :: "char \<Rightarrow> bool" where
  "is_space c = (of_char c \<in> {9, 10, 11, 12, 13, 32, 160 :: int})"

definition trim :: "string \<Rightarrow> string" where
  "trim s = rev (dropWhile is_space (rev (dropWhile is_space s)))"

text \<open>\<open>s.split(sep)\<close> for a one-character separator: always at least one piece.\<close>

fun split :: "char \<Rightarrow> string \<Rightarrow> string list" where
  "split sep [] = [[]]"
| "split sep (c # cs) =
     (if c = sep then [] # split sep cs
      else (case split sep cs of
              [] \<Rightarrow> [[c]]
            | w # ws \<Rightarrow> (c # w) # ws))"

subsection \<open>String to number\<close>

definition digit_of :: "int \<Rightarrow> char \<Rightarrow> int option" where
  "digit_of base c =
     (let n = of_char c :: int;
          v = (if 48 \<le> n \<and> n \<le> 57 then Some (n - 48)
               else if 97 \<le> n \<and> n \<le> 102 then Some (n - 87)
               else if 65 \<le> n \<and> n \<le> 70 then Some (n - 55)
               else None)
      in case v of None \<Rightarrow> None | Some d \<Rightarrow> if d < base then Some d else None)"

definition all_digits :: "int \<Rightarrow> string \<Rightarrow> bool" where
  "all_digits base s = list_all (\<lambda>c. digit_of base c \<noteq> None) s"

definition digits_value :: "int \<Rightarrow> string \<Rightarrow> int" where
  "digits_value base s = foldl (\<lambda>a c. base * a + (case digit_of base c of None \<Rightarrow> 0 | Some d \<Rightarrow> d)) 0 s"

text \<open>Cut a string at the first character satisfying \<open>P\<close>; the second part is absent when there is none.\<close>

definition cut_at :: "(char \<Rightarrow> bool) \<Rightarrow> string \<Rightarrow> string \<times> string option" where
  "cut_at P s =
     (takeWhile (\<lambda>c. \<not> P c) s,
      case dropWhile (\<lambda>c. \<not> P c) s of [] \<Rightarrow> None | _ # r \<Rightarrow> Some r)"

definition strip_sign :: "string \<Rightarrow> bool \<times> string" where
  "strip_sign s =
     (case s of
        c # r \<Rightarrow> if c = CHR ''-'' then (True, r) else if c = CHR ''+'' then (False, r) else (False, s)
      | [] \<Rightarrow> (False, s))"

text \<open>
  StrUnsignedDecimalLiteral: \<open>Infinity\<close>, or digits with an optional fraction and an
  optional exponent, at least one digit in the mantissa and in the exponent.
\<close>

definition unsigned_decimal :: "string \<Rightarrow> jsnum" where
  "unsigned_decimal s =
     (if s = ''Infinity'' then PInf
      else
        let (m, e) = cut_at (\<lambda>c. c = CHR ''e'' \<or> c = CHR ''E'') s;
            (ip, fp) = cut_at (\<lambda>c. c = CHR ''.'') m;
            f = (case fp of None \<Rightarrow> [] | Some x \<Rightarrow> x);
            (eneg, ed) = (case e of None \<Rightarrow> (False, ''0'') | Some x \<Rightarrow> strip_sign x)
        in if all_digits 10 ip \<and> all_digits 10 f \<and> (ip \<noteq> [] \<or> f \<noteq> [])
              \<and> all_digits 10 ed \<and> ed \<noteq> []
           then
             let mant = of_int (digits_value 10 (ip @ f)) / 10 ^ length f :: rat;
                 ex = nat (digits_value 10 ed)
             in Fin (if eneg then mant / 10 ^ ex else mant * 10 ^ ex)
           else NaN)"

text \<open>NonDecimalIntegerLiteral: \<open>0x\<close>, \<open>0o\<close>, \<open>0b\<close> prefixes, no sign.\<close>

definition radix_prefix :: "string \<Rightarrow> (int \<times> string) option" where
  "radix_prefix s =
     (case s of
        z # p # r \<Rightarrow>
          if z \<noteq> CHR ''0'' then None
          else if p = CHR ''x'' \<or> p = CHR ''X'' then Some (16, r)
          else if p = CHR ''o'' \<or> p = CHR ''O'' then Some (8, r)
          else if p = CHR ''b'' \<or> p = CHR ''B'' then Some (2, r)
          else None
      | _ \<Rightarrow> None)"

text \<open>\<open>Number(s)\<close> on a string: white space is trimmed, the empty string is 0, anything outside the grammar is NaN.\<close>

definition string_to_number :: "string \<Rightarrow> jsnum" where
  "string_to_number s =
     (let t = trim s in
      if t = [] then Fin 0
      else case radix_prefix t of
             Some (b, r) \<Rightarrow> if r \<noteq> [] \<and> all_digits b r then Fin (of_int (digits_value b r)) else NaN
           | None \<Rightarrow>
               let (neg, u) = strip_sign t; v = unsigned_decimal u
               in if neg then jsnum_neg v else v)"



section \<open>Data model (the Property schema)\<close>

record img =
  url :: string
  public_id :: string

text \<open>
  A stored listing. \<open>oid\<close> is the document's \<open>_id\<close>, \<open>ptype\<close> its \<open>type\<close>;
  \<open>locationCoordinates\<close> holds the \<open>coordinates\<close> array \<open>[longitude, latitude]\<close> of the
  GeoJSON point.
\<close>

record listing =
  oid :: string
  title :: string
  description :: string
  price :: jsnum
  location :: string
  ptype :: string
  amenities :: "string list"
  images :: "img list"
  agent :: string
  createdAt :: int
  bedrooms :: jsnum
  bathrooms :: jsnum
  squareFootage :: jsnum
  status :: string
  views :: jsnum
  locationCoordinates :: "jsnum list"

definition property_types :: "string list" where
  "property_types = [''house'', ''apartment'', ''condo'', ''land'']"

definition status_values :: "string list" where
  "status_values = [''active'', ''sold'', ''rented'', ''pending'']"


text \<open>A Number path with \<open>min: 0\<close>: NaN cannot be cast to Number, and the value must be at least 0.\<close>

definition min0 :: "jsnum \<Rightarrow> bool" where
  "min0 n = (n \<noteq> NaN \<and> jsnum_le (Fin 0) n)"

text \<open>
  The schema's validators, run on the whole document whenever it is created or saved:
  required strings are non-empty, enumerated strings are in their list, numbers satisfy
  \<open>min: 0\<close>, coordinates are numbers.
\<close>

definition schema_valid :: "listing \<Rightarrow> bool" where
  "schema_valid l =
     (title l \<noteq> [] \<and> description l \<noteq> [] \<and> min0 (price l) \<and> location l \<noteq> []
      \<and> ptype l \<in> set property_types
      \<and> min0 (bedrooms l) \<and> min0 (bathrooms l) \<and> min0 (squareFootage l)
      \<and> status l \<in> set status_values \<and> min0 (views l)
      \<and> list_all (\<lambda>c. c \<noteq> NaN) (locationCoordinates l))"

text \<open>The collection, in insertion order; \<open>findById\<close>, \<open>save\<close> and \<open>deleteOne\<close> act on the first document with the identifier.\<close>

definition findById :: "string \<Rightarrow> listing list \<Rightarrow> listing option" where
  "findById i db = find (\<lambda>l. oid l = i) db"

fun replace_doc :: "listing \<Rightarrow> listing list \<Rightarrow> listing list" where
  "replace_doc l [] = []"
| "replace_doc l (x # xs) = (if oid x = oid l then l # xs else x # replace_doc l xs)"

text \<open>\<open>doc.save()\<close>: rejected (it throws) when validation fails, otherwise the stored document is replaced.\<close>

definition save :: "listing \<Rightarrow> listing list \<Rightarrow> listing list option" where
  "save l db = (if schema_valid l then Some (replace_doc l db) else None)"

fun deleteOne :: "string \<Rightarrow> listing list \<Rightarrow> listing list" where
  "deleteOne i [] = []"
| "deleteOne i (x # xs) = (if oid x = i then xs else x # deleteOne i xs)"

text \<open>The remote image store, as the list of asset identifiers it holds; \<open>destroy\<close> removes one.\<close>

definition destroy :: "string \<Rightarrow> string list \<Rightarrow> string list" where
  "destroy pid cloud = removeAll pid cloud"

definition destroy_images :: "img list \<Rightarrow> string list \<Rightarrow> string list" where
  "destroy_images imgs cloud = foldl (\<lambda>c i. destroy (public_id i) c) cloud imgs"

section \<open>The query descriptor and the document store\<close>

text \<open>
  The geospatial operator of the two revisions of the route file: \<open>$near\<close> with a GeoJSON
  point and \<open>$maxDistance\<close>, and \<open>$geoWithin\<close> with \<open>$centerSphere\<close>. Each carries the
  centre \<open>[lng, lat]\<close> and the distance argument.
\<close>

datatype geo = Near "jsnum list" jsnum | CenterSphere "jsnum list" jsnum

datatype revision = Near_revision | GeoWithin_revision

record range =
  gte :: "jsnum option"
  lte :: "jsnum option"

record query =
  f_agent :: "string option"
  f_text :: "string option"
  f_geo :: "geo option"
  f_location :: "string option"
  f_type :: "string option"
  f_amenities :: "string list option"
  f_bedrooms :: "jsnum option"
  f_bathrooms :: "jsnum option"
  f_status :: "string option"
  f_price :: "range option"
  f_squareFootage :: "range option"

text \<open>
  What the handlers take from their environment and do not define themselves: the
  identifier check of the object-document mapper, the regular-expression engine
  (\<open>regexp_ok\<close>: \<open>new RegExp(src, "i")\<close> does not throw; \<open>regexp_test\<close>: the expression
  matches somewhere in the subject), the store's full-text search, its interpretation of a
  geospatial operator (\<open>None\<close> when the store rejects the operator or its arguments), and
  its ordering of documents by a named field.
\<close>

record engine =
  isValidObjectId :: "string \<Rightarrow> bool"
  regexp_ok :: "string \<Rightarrow> bool"
  regexp_test :: "string \<Rightarrow> string \<Rightarrow> bool"
  text_search :: "string \<Rightarrow> listing \<Rightarrow> bool"
  geo_select :: "geo \<Rightarrow> (jsnum list \<Rightarrow> bool) option"
  field_le :: "string \<Rightarrow> listing \<Rightarrow> listing \<Rightarrow> bool"

definition eq_filter :: "'a option \<Rightarrow> 'a \<Rightarrow> bool" where
  "eq_filter f v = (case f of None \<Rightarrow> True | Some x \<Rightarrow> v = x)"

text \<open>\<open>{$gte: a, $lte: b}\<close>; a condition object with neither bound equals no number.\<close>

definition range_filter :: "range option \<Rightarrow> jsnum \<Rightarrow> bool" where
  "range_filter f v =
     (case f of
        None \<Rightarrow> True
      | Some r \<Rightarrow>
          (gte r \<noteq> None \<or> lte r \<noteq> None)
          \<and> (case gte r of None \<Rightarrow> True | Some a \<Rightarrow> jsnum_le a v)
          \<and> (case lte r of None \<Rightarrow> True | Some b \<Rightarrow> jsnum_le v b))"

text \<open>\<open>{$all: tags}\<close>: the array field contains every tag; an empty \<open>$all\<close> matches nothing.\<close>

definition all_filter :: "string list option \<Rightarrow> string list \<Rightarrow> bool" where
  "all_filter f xs =
     (case f of None \<Rightarrow> True | Some tags \<Rightarrow> tags \<noteq> [] \<and> list_all (\<lambda>t. t \<in> set xs) tags)"

text \<open>A document matches a query when it satisfies every condition present in it.\<close>

definition matches :: "engine \<Rightarrow> (jsnum list \<Rightarrow> bool) \<Rightarrow> query \<Rightarrow> listing \<Rightarrow> bool" where
  "matches E g q l =
     (eq_filter (f_agent q) (agent l)
      \<and> (case f_text q of None \<Rightarrow> True | Some s \<Rightarrow> text_search E s l)
      \<and> g (locationCoordinates l)
      \<and> (case f_location q of None \<Rightarrow> True | Some src \<Rightarrow> regexp_test E src (location l))
      \<and> eq_filter (f_type q) (ptype l)
      \<and> all_filter (f_amenities q) (amenities l)
      \<and> eq_filter (f_bedrooms q) (bedrooms l)
      \<and> eq_filter (f_bathrooms q) (bathrooms l)
      \<and> eq_filter (f_status q) (status l)
      \<and> range_filter (f_price q) (price l)
      \<and> range_filter (f_squareFootage q) (squareFootage l))"

text \<open>
  The mapper casts every value of a filter to the schema type of its path before the
  query is sent; NaN cannot be cast to Number and the query is rejected.
\<close>

definition castable :: "jsnum option \<Rightarrow> bool" where
  "castable v = (v \<noteq> Some NaN)"

definition range_castable :: "range option \<Rightarrow> bool" where
  "range_castable f = (case f of None \<Rightarrow> True | Some r \<Rightarrow> castable (gte r) \<and> castable (lte r))"

definition cast_ok :: "query \<Rightarrow> bool" where
  "cast_ok q =
     (castable (f_bedrooms q) \<and> castable (f_bathrooms q)
      \<and> range_castable (f_price q) \<and> range_castable (f_squareFootage q))"

definition geo_pred :: "engine \<Rightarrow> query \<Rightarrow> (jsnum list \<Rightarrow> bool) option" where
  "geo_pred E q = (case f_geo q of None \<Rightarrow> Some (\<lambda>c. True) | Some g \<Rightarrow> geo_select E g)"

text \<open>The documents a query selects; \<open>None\<close> when the query is rejected.\<close>

definition select :: "engine \<Rightarrow> query \<Rightarrow> listing list \<Rightarrow> listing list option" where
  "select E q db =
     (if \<not> cast_ok q then None
      else case geo_pred E q of
             None \<Rightarrow> None
           | Some g \<Rightarrow> Some (filter (matches E g q) db))"

definition countDocuments :: "engine \<Rightarrow> query \<Rightarrow> listing list \<Rightarrow> nat option" where
  "countDocuments E q db = map_option length (select E q db)"

text \<open>Sorting by one field, as a stable insertion sort over the store's ordering of that field.\<close>

fun insert_by :: "('a \<Rightarrow> 'a \<Rightarrow> bool) \<Rightarrow> 'a \<Rightarrow> 'a list \<Rightarrow> 'a list" where
  "insert_by le x [] = [x]"
| "insert_by le x (y # ys) = (if le x y then x # y # ys else y # insert_by le x ys)"

definition sort_by :: "('a \<Rightarrow> 'a \<Rightarrow> bool) \<Rightarrow> 'a list \<Rightarrow> 'a list" where
  "sort_by le xs = foldr (insert_by le) xs []"

definition sort_docs :: "engine \<Rightarrow> string \<Rightarrow> bool \<Rightarrow> listing list \<Rightarrow> listing list" where
  "sort_docs E key desc xs =
     sort_by (if desc then (\<lambda>a b. field_le E key b a) else field_le E key) xs"

definition as_int :: "jsnum \<Rightarrow> int option" where
  "as_int n = (case n of Fin r \<Rightarrow> if of_int \<lfloor>r\<rfloor> = r then Some \<lfloor>r\<rfloor> else None | _ \<Rightarrow> None)"

text \<open>
  \<open>.skip(s).limit(n)\<close>: both must be integers and the skip non-negative, else the store
  rejects the query; a limit of 0 means no limit, a negative limit is used by its
  absolute value.
\<close>

definition paginate :: "jsnum \<Rightarrow> jsnum \<Rightarrow> 'a list \<Rightarrow> 'a list option" where
  "paginate s n xs =
     (case (as_int s, as_int n) of
        (Some i, Some k) \<Rightarrow>
          if i < 0 then None
          else Some (if k = 0 then drop (nat i) xs else take (nat \<bar>k\<bar>) (drop (nat i) xs))
      | _ \<Rightarrow> None)"

definition find_page ::
  "engine \<Rightarrow> query \<Rightarrow> string \<Rightarrow> bool \<Rightarrow> jsnum \<Rightarrow> jsnum \<Rightarrow> listing list \<Rightarrow> listing list option" where
  "find_page E q key desc s n db =
     (case select E q db of
        None \<Rightarrow> None
      | Some ms \<Rightarrow> paginate s n (sort_docs E key desc ms))"

section \<open>The listing endpoints: \<open>GET /\<close> and \<open>GET /user\<close>\<close>

text \<open>
  The query-string parameters the handlers read. Each is absent or a string; repeated and
  nested parameters are not represented. \<open>q_status\<close> is read by \<open>GET /user\<close> only.
  The handlers sanitize \<open>req.query\<close> after the parameters were destructured from it, and
  sanitizing leaves a string as it is, so the step does not appear below; neither does
  \<open>populate\<close>, which adds the agent's name and e-mail to the listings of the answer.
\<close>

record params =
  q_location :: "string option"
  q_priceMin :: "string option"
  q_priceMax :: "string option"
  q_type :: "string option"
  q_amenities :: "string option"
  q_bedrooms :: "string option"
  q_bathrooms :: "string option"
  q_squareFootageMin :: "string option"
  q_squareFootageMax :: "string option"
  q_search :: "string option"
  q_lat :: "string option"
  q_lng :: "string option"
  q_radius :: "string option"
  q_status :: "string option"
  q_page :: "string option"
  q_limit :: "string option"
  q_sort :: "string option"
  q_order :: "string option"

text \<open>\<open>if (x) query.k = f(x)\<close>.\<close>

definition when_given :: "string option \<Rightarrow> (string \<Rightarrow> 'a) \<Rightarrow> 'a option" where
  "when_given p f = (case p of None \<Rightarrow> None | Some s \<Rightarrow> if s = [] then None else Some (f s))"

definition geo_filter :: "revision \<Rightarrow> string \<Rightarrow> string \<Rightarrow> string \<Rightarrow> geo" where
  "geo_filter rv lat lng radius =
     (case rv of
        Near_revision \<Rightarrow>
          Near [string_to_number lng, string_to_number lat]
               (jsnum_mul (string_to_number radius) (Fin 1000))
      | GeoWithin_revision \<Rightarrow>
          CenterSphere [string_to_number lng, string_to_number lat]
               (jsnum_div (string_to_number radius) (Fin (63781 / 10))))"

definition range_of :: "string option \<Rightarrow> string option \<Rightarrow> range option" where
  "range_of lo hi =
     (if given lo \<or> given hi
      then Some \<lparr>gte = when_given lo string_to_number, lte = when_given hi string_to_number\<rparr>
      else None)"

text \<open>The filter built by \<open>GET /\<close>, starting from the empty query.\<close>

definition public_query :: "revision \<Rightarrow> params \<Rightarrow> query" where
  "public_query rv p =
     \<lparr>f_agent = None,
      f_text = when_given (q_search p) (\<lambda>s. s),
      f_geo = (case (q_lat p, q_lng p, q_radius p) of
                 (Some lat, Some lng, Some radius) \<Rightarrow>
                   if lat \<noteq> [] \<and> lng \<noteq> [] \<and> radius \<noteq> []
                   then Some (geo_filter rv lat lng radius) else None
               | _ \<Rightarrow> None),
      f_location = when_given (q_location p) (\<lambda>s. s),
      f_type = when_given (q_type p) (\<lambda>s. s),
      f_amenities = when_given (q_amenities p) (\<lambda>a. map trim (split CHR '','' a)),
      f_bedrooms = when_given (q_bedrooms p) string_to_number,
      f_bathrooms = when_given (q_bathrooms p) string_to_number,
      f_status = None,
      f_price = range_of (q_priceMin p) (q_priceMax p),
      f_squareFootage = range_of (q_squareFootageMin p) (q_squareFootageMax p)\<rparr>"

text \<open>The filter built by \<open>GET /user\<close>: the same, starting from \<open>{agent: req.user._id}\<close>, with the status filter.\<close>

definition user_query :: "revision \<Rightarrow> string \<Rightarrow> params \<Rightarrow> query" where
  "user_query rv uid p =
     (public_query rv p)\<lparr>f_agent := Some uid, f_status := when_given (q_status p) (\<lambda>s. s)\<rparr>"

text \<open>\<open>new RegExp(location, "i")\<close> throws on a source that is not a regular expression.\<close>

definition location_throws :: "engine \<Rightarrow> params \<Rightarrow> bool" where
  "location_throws E p =
     (case q_location p of None \<Rightarrow> False | Some s \<Rightarrow> s \<noteq> [] \<and> \<not> regexp_ok E s)"

text \<open>The defaults of the destructuring, and the unary plus on \<open>page\<close> and \<open>limit\<close>.\<close>

definition page_number :: "params \<Rightarrow> jsnum" where
  "page_number p = (case q_page p of None \<Rightarrow> Fin 1 | Some s \<Rightarrow> string_to_number s)"

definition limit_number :: "params \<Rightarrow> jsnum" where
  "limit_number p = (case q_limit p of None \<Rightarrow> Fin 10 | Some s \<Rightarrow> string_to_number s)"

definition sort_field :: "params \<Rightarrow> string" where
  "sort_field p = (case q_sort p of None \<Rightarrow> ''createdAt'' | Some s \<Rightarrow> s)"

definition descending :: "params \<Rightarrow> bool" where
  "descending p = (case q_order p of None \<Rightarrow> True | Some s \<Rightarrow> s = ''desc'')"

record envelope =
  r_count :: nat
  r_total :: nat
  r_page :: jsnum
  r_pages :: jsnum
  r_properties :: "listing list"

text \<open>
  A response is a status code with a JSON body: a page of listings, one listing, a success
  message, or \<open>{success: false, message}\<close>. \<open>Unhandled\<close> stands for an exception thrown
  outside every \<open>try\<close> block of the handler: no response is sent.
\<close>

datatype body = Page envelope | Doc listing | Message string | Failure string

datatype response = Reply nat body | Unhandled

definition server_error :: response where
  "server_error = Reply 500 (Failure ''Server Error'')"

text \<open>The \<open>try\<close> block shared by the two listing handlers: count, find, sort, skip, limit, respond.\<close>

definition run_search :: "engine \<Rightarrow> query \<Rightarrow> params \<Rightarrow> listing list \<Rightarrow> response" where
  "run_search E q p db =
     (case countDocuments E q db of
        None \<Rightarrow> server_error
      | Some tot \<Rightarrow>
          (case find_page E q (sort_field p) (descending p)
                  (jsnum_mul (jsnum_sub (page_number p) (Fin 1)) (limit_number p))
                  (limit_number p) db of
             None \<Rightarrow> server_error
           | Some props \<Rightarrow>
               Reply 200 (Page \<lparr>r_count = length props,
                                r_total = tot,
                                r_page = page_number p,
                                r_pages = jsnum_ceil (jsnum_div (Fin (of_nat tot)) (limit_number p)),
                                r_properties = props\<rparr>)))"

text \<open>\<open>GET /\<close>: the filter is built before the \<open>try\<close> block.\<close>

definition list_properties :: "revision \<Rightarrow> engine \<Rightarrow> params \<Rightarrow> listing list \<Rightarrow> response" where
  "list_properties rv E p db =
     (if location_throws E p then Unhandled
      else run_search E (public_query rv p) p db)"

record user =
  uid :: string
  role :: string

text \<open>\<open>GET /user\<close>: everything happens inside the \<open>try\<close> block.\<close>

definition list_user_properties ::
  "revision \<Rightarrow> engine \<Rightarrow> user option \<Rightarrow> params \<Rightarrow> listing list \<Rightarrow> response" where
  "list_user_properties rv E u p db =
     (case u of
        None \<Rightarrow> Reply 401 (Failure ''User not authenticated'')
      | Some usr \<Rightarrow>
          if location_throws E p then server_error
          else run_search E (user_query rv (uid usr) p) p db)"

section \<open>Single-listing endpoints\<close>

text \<open>\<open>GET /:id\<close>. The handler returns the response and the collection it leaves behind.\<close>

definition get_property :: "engine \<Rightarrow> string \<Rightarrow> listing list \<Rightarrow> response \<times> listing list" where
  "get_property E rid db =
     (if \<not> isValidObjectId E rid then (Reply 400 (Failure ''Invalid property ID''), db)
      else case findById rid db of
             None \<Rightarrow> (Reply 404 (Failure ''Property not found''), db)
           | Some property \<Rightarrow>
               (let property' = property\<lparr>views := jsnum_add (views property) (Fin 1)\<rparr>
                in case save property' db of
                     None \<Rightarrow> (server_error, db)
                   | Some db' \<Rightarrow> (Reply 200 (Doc property'), db')))"

text \<open>The owner-or-admin test of the mutating handlers.\<close>

definition isOwner :: "listing \<Rightarrow> user \<Rightarrow> bool" where
  "isOwner property usr = (agent property = uid usr \<or> role usr = ''admin'')"

text \<open>\<open>PATCH /:id/status\<close>; the body's \<open>status\<close> may be missing.\<close>

definition update_status ::
  "engine \<Rightarrow> user \<Rightarrow> string \<Rightarrow> string option \<Rightarrow> listing list \<Rightarrow> response \<times> listing list" where
  "update_status E usr rid st db =
     (if \<not> isValidObjectId E rid then (Reply 400 (Failure ''Invalid property ID''), db)
      else case (case st of None \<Rightarrow> None
                 | Some s \<Rightarrow> if s \<in> set [''active'', ''sold'', ''pending'', ''rented''] then Some s else None) of
             None \<Rightarrow> (Reply 400 (Failure ''Invalid status value''), db)
           | Some s \<Rightarrow>
               (case findById rid db of
                  None \<Rightarrow> (Reply 404 (Failure ''Property not found''), db)
                | Some property \<Rightarrow>
                    if \<not> isOwner property usr then (Reply 403 (Failure ''Not authorized''), db)
                    else (let property' = property\<lparr>status := s\<rparr>
                          in case save property' db of
                               None \<Rightarrow> (server_error, db)
                             | Some db' \<Rightarrow> (Reply 200 (Doc property'), db'))))"

text \<open>\<open>DELETE /:id\<close>; the state is the collection and the remote image store.\<close>

definition delete_property ::
  "engine \<Rightarrow> user \<Rightarrow> string \<Rightarrow> listing list \<times> string list \<Rightarrow> response \<times> listing list \<times> string list" where
  "delete_property E usr rid st =
     (case st of (db, cloud) \<Rightarrow>
        if \<not> isValidObjectId E rid then (Reply 400 (Failure ''Invalid property ID''), db, cloud)
        else case findById rid db of
               None \<Rightarrow> (Reply 404 (Failure ''Property not found''), db, cloud)
             | Some property \<Rightarrow>
                 if \<not> isOwner property usr then (Reply 403 (Failure ''Not authorized''), db, cloud)
                 else (Reply 200 (Message ''Property deleted''),
                       deleteOne (oid property) db,
                       destroy_images (images property) cloud))"

section \<open>Creating and updating a listing\<close>











section \<open>The location filter as a regular expression\<close>

text \<open>
  \<open>new RegExp(location, "i")\<close> for the sources made of literal characters and the wildcard
  \<open>.\<close> only. A source holding any other syntax character of regular expressions, or a
  character outside ASCII, is not covered (\<open>None\<close>).
\<close>

datatype atom = Lit char | Wild

definition syntax_chars :: "char list" where
  "syntax_chars =
     [CHR ''^'', CHR ''$'', CHR 0x5C, CHR ''.'', CHR ''*'', CHR ''+'', CHR ''?'', CHR ''('', CHR '')'',
      CHR ''['', CHR '']'', CHR ''{'', CHR ''}'', CHR ''|'', CHR ''/'']"

definition atom_of :: "char \<Rightarrow> atom option" where
  "atom_of c =
     (if c = CHR ''.'' then Some Wild
      else if c \<in> set syntax_chars \<or> 128 \<le> (of_char c :: int) then None
      else Some (Lit c))"

fun parse_simple :: "string \<Rightarrow> atom list option" where
  "parse_simple [] = Some []"
| "parse_simple (c # cs) =
     (case atom_of c of
        None \<Rightarrow> None
      | Some a \<Rightarrow> (case parse_simple cs of None \<Rightarrow> None | Some as \<Rightarrow> Some (a # as)))"

text \<open>Case folding of the \<open>i\<close> flag on ASCII letters.\<close>

definition fold_case :: "char \<Rightarrow> char" where
  "fold_case c =
     (let n = of_char c :: nat in if 97 \<le> n \<and> n \<le> 122 then char_of (n - 32) else c)"

definition line_terminator :: "char \<Rightarrow> bool" where
  "line_terminator c = (of_char c \<in> {10, 13 :: int})"

fun atom_matches :: "atom \<Rightarrow> char \<Rightarrow> bool" where
  "atom_matches (Lit a) c = (fold_case a = fold_case c)"
| "atom_matches Wild c = (\<not> line_terminator c)"

fun matches_here :: "atom list \<Rightarrow> string \<Rightarrow> bool" where
  "matches_here [] s = True"
| "matches_here (a # as) [] = False"
| "matches_here (a # as) (c # cs) = (atom_matches a c \<and> matches_here as cs)"

fun matches_somewhere :: "atom list \<Rightarrow> string \<Rightarrow> bool" where
  "matches_somewhere as [] = matches_here as []"
| "matches_somewhere as (c # cs) = (matches_here as (c # cs) \<or> matches_somewhere as cs)"

definition simple_regexp_test :: "string \<Rightarrow> string \<Rightarrow> bool option" where
  "simple_regexp_test src s = map_option (\<lambda>as. matches_somewhere as s) (parse_simple src)"

text \<open>The specification's reading of the location filter: a case-insensitive substring.\<close>

definition ci_substring :: "string \<Rightarrow> string \<Rightarrow> bool" where
  "ci_substring s t = sublist (map fold_case s) (map fold_case t)"

section \<open>Concrete requests and documents\<close>

text \<open>
  An engine on which the handlers can be evaluated: identifiers are 24 hexadecimal digits,
  regular expressions are the simple ones above, the text search looks for the search
  string in the title or the description, a geospatial operator selects the documents
  lying exactly at its centre, and documents are ordered by creation time or price.
\<close>

definition test_engine :: engine where
  "test_engine =
     \<lparr>isValidObjectId = (\<lambda>s. length s = 24 \<and> all_digits 16 s),
      regexp_ok = (\<lambda>src. parse_simple src \<noteq> None),
      regexp_test = (\<lambda>src s. simple_regexp_test src s = Some True),
      text_search = (\<lambda>s l. sublist s (title l) \<or> sublist s (description l)),
      geo_select = (\<lambda>g. case g of
                          Near c d \<Rightarrow> Some (\<lambda>x. x = c)
                        | CenterSphere c r \<Rightarrow> Some (\<lambda>x. x = c)),
      field_le = (\<lambda>k a b. if k = ''price'' then jsnum_le (price a) (price b)
                           else createdAt a \<le> createdAt b)\<rparr>"

definition no_params :: params where
  "no_params =
     \<lparr>q_location = None, q_priceMin = None, q_priceMax = None, q_type = None,
      q_amenities = None, q_bedrooms = None, q_bathrooms = None,
      q_squareFootageMin = None, q_squareFootageMax = None, q_search = None,
      q_lat = None, q_lng = None, q_radius = None, q_status = None,
      q_page = None, q_limit = None, q_sort = None, q_order = None\<rparr>"

definition house :: listing where
  "house =
     \<lparr>oid = ''64b7f0c2a1d3e4f5a6b7c8d9'', title = ''Family house'', description = ''Near the lagoon'',
      price = Fin 250000, location = ''Lagos'', ptype = ''house'', amenities = [''pool''],
      images = [\<lparr>url = ''https://img/1.jpg'', public_id = ''realestate/properties/1''\<rparr>],
      agent = ''64b7f0c2a1d3e4f5a6b7c8aa'', createdAt = 1000,
      bedrooms = Fin 3, bathrooms = Fin 2, squareFootage = Fin 1200,
      status = ''active'', views = Fin 7, locationCoordinates = [Fin 3, Fin 6]\<rparr>"

definition owner :: user where
  "owner = \<lparr>uid = ''64b7f0c2a1d3e4f5a6b7c8aa'', role = ''agent''\<rparr>"

definition stranger :: user where
  "stranger = \<lparr>uid = ''64b7f0c2a1d3e4f5a6b7c8bb'', role = ''agent''\<rparr>"


text \<open>Requests used in the examples: one amenity, two amenities, the second page of five.\<close>

definition pool_only :: params where
  "pool_only = no_params\<lparr>q_amenities := Some ''pool''\<rparr>"

definition pool_gym :: params where
  "pool_gym = no_params\<lparr>q_amenities := Some ''pool,gym''\<rparr>"


text \<open>The six numeric filter parameters, and a request with each empty one of them removed.\<close>

definition numeric_params :: "params \<Rightarrow> string option list" where
  "numeric_params p =
     [q_priceMin p, q_priceMax p, q_squareFootageMin p, q_squareFootageMax p, q_bedrooms p, q_bathrooms p]"

definition absent_if_empty :: "string option \<Rightarrow> string option" where
  "absent_if_empty v = (if v = Some [] then None else v)"

definition without_empty_numbers :: "params \<Rightarrow> params" where
  "without_empty_numbers p =
     p\<lparr>q_priceMin := absent_if_empty (q_priceMin p),
       q_priceMax := absent_if_empty (q_priceMax p),
       q_squareFootageMin := absent_if_empty (q_squareFootageMin p),
       q_squareFootageMax := absent_if_empty (q_squareFootageMax p),
       q_bedrooms := absent_if_empty (q_bedrooms p),
       q_bathrooms := absent_if_empty (q_bathrooms p)\<rparr>"

text \<open>A bedroom count that is not a number, and a location filter that is a lone dot.\<close>

definition bedrooms_abc :: params where
  "bedrooms_abc = no_params\<lparr>q_bedrooms := Some ''abc''\<rparr>"

definition dot_location :: params where
  "dot_location = no_params\<lparr>q_location := Some ''.''\<rparr>"




section \<open>Properties of the store operations\<close>



section \<open>Fetching one listing\<close>




lemma house_id_valid: "isValidObjectId test_engine ''64b7f0c2a1d3e4f5a6b7c8d9''"
  by (simp add: test_engine_def all_digits_def digit_of_def)

lemma house_found: "findById ''64b7f0c2a1d3e4f5a6b7c8d9'' [house] = Some house"
  by (simp add: findById_def house_def)



text \<open>
  C7. A malformed identifier is answered with 400 "Invalid property ID" and never with
  404; a well-formed identifier that matches no listing is answered with 404
  "Property not found".
\<close>

theorem fetch_identifier_errors:
  "(\<not> isValidObjectId E rid \<longrightarrow>
      get_property E rid db = (Reply 400 (Failure ''Invalid property ID''), db)
      \<and> (\<forall>b. fst (get_property E rid db) \<noteq> Reply 404 b))
   \<and> (isValidObjectId E rid \<and> findById rid db = None \<longrightarrow>
      get_property E rid db = (Reply 404 (Failure ''Property not found''), db))"
  by (simp add: get_property_def)

theorem fetch_identifier_errors_witness:
  "get_property test_engine ''not-an-id'' [house] = (Reply 400 (Failure ''Invalid property ID''), [house])
   \<and> get_property test_engine ''64b7f0c2a1d3e4f5a6b7c8ff'' [house]
       = (Reply 404 (Failure ''Property not found''), [house])"
proof -
  have 1: "\<not> isValidObjectId test_engine ''not-an-id''"
    by (simp add: test_engine_def)
  have 2: "isValidObjectId test_engine ''64b7f0c2a1d3e4f5a6b7c8ff''"
    by (simp add: test_engine_def all_digits_def digit_of_def)
  have 3: "findById ''64b7f0c2a1d3e4f5a6b7c8ff'' [house] = None"
    by (simp add: findById_def house_def)
  from fetch_identifier_errors[of test_engine "''not-an-id''" "[house]"] 1
       fetch_identifier_errors[of test_engine "''64b7f0c2a1d3e4f5a6b7c8ff''" "[house]"] 2 3
  show ?thesis by blast
qed

section \<open>Mutating one listing\<close>

lemma delete_property_changes:
  assumes "delete_property E usr rid (db, cloud) = (r, db', cloud')" "db' \<noteq> db \<or> cloud' \<noteq> cloud"
  shows "\<exists>l. findById rid db = Some l \<and> isOwner l usr \<and> r = Reply 200 (Message ''Property deleted'')"
  using assms by (auto simp: delete_property_def split: if_splits option.splits)

text \<open>
  C8. A delete request for a stored listing by a requester who is neither the listing's
  agent nor an administrator is answered with 403 "Not authorized", and the collection and
  the remote image store are left exactly as they were. Whenever a delete request changes
  the collection or the image store, the listing was found and the owner-or-admin test
  passed.
\<close>

theorem delete_forbidden_unchanged:
  "(isValidObjectId E rid \<and> findById rid db = Some l \<and> agent l \<noteq> uid usr \<and> role usr \<noteq> ''admin'' \<longrightarrow>
      delete_property E usr rid (db, cloud) = (Reply 403 (Failure ''Not authorized''), db, cloud))
   \<and> (\<forall>r db' cloud'. delete_property E usr rid (db, cloud) = (r, db', cloud')
          \<and> (db' \<noteq> db \<or> cloud' \<noteq> cloud) \<longrightarrow>
        (\<exists>p. findById rid db = Some p \<and> (agent p = uid usr \<or> role usr = ''admin'')))"
proof (intro conjI allI impI)
  assume "isValidObjectId E rid \<and> findById rid db = Some l \<and> agent l \<noteq> uid usr \<and> role usr \<noteq> ''admin''"
  then show "delete_property E usr rid (db, cloud) = (Reply 403 (Failure ''Not authorized''), db, cloud)"
    by (simp add: delete_property_def isOwner_def)
next
  fix r db' cloud'
  assume "delete_property E usr rid (db, cloud) = (r, db', cloud') \<and> (db' \<noteq> db \<or> cloud' \<noteq> cloud)"
  then show "\<exists>p. findById rid db = Some p \<and> (agent p = uid usr \<or> role usr = ''admin'')"
    using delete_property_changes[of E usr rid db cloud r db' cloud'] by (auto simp: isOwner_def)
qed

theorem delete_forbidden_unchanged_witness:
  "delete_property test_engine stranger ''64b7f0c2a1d3e4f5a6b7c8d9'' ([house], [''realestate/properties/1''])
     = (Reply 403 (Failure ''Not authorized''), [house], [''realestate/properties/1''])
   \<and> delete_property test_engine owner ''64b7f0c2a1d3e4f5a6b7c8d9'' ([house], [''realestate/properties/1''])
     = (Reply 200 (Message ''Property deleted''), [], [])
   \<and> (\<exists>p. findById ''64b7f0c2a1d3e4f5a6b7c8d9'' [house] = Some p
          \<and> (agent p = uid owner \<or> role owner = ''admin''))"
proof -
  have s: "agent house \<noteq> uid stranger \<and> role stranger \<noteq> ''admin''"
    by (simp add: house_def stranger_def)
  have d: "delete_property test_engine owner ''64b7f0c2a1d3e4f5a6b7c8d9'' ([house], [''realestate/properties/1''])
     = (Reply 200 (Message ''Property deleted''), [], [])"
    using house_id_valid house_found
    by (simp add: delete_property_def isOwner_def destroy_images_def destroy_def)
       (simp add: house_def owner_def)
  have c: "([]::listing list) \<noteq> [house]" by simp
  from delete_forbidden_unchanged[of test_engine "''64b7f0c2a1d3e4f5a6b7c8d9''" "[house]" house stranger
         "[''realestate/properties/1'']"] house_id_valid house_found s
  have 1: "delete_property test_engine stranger ''64b7f0c2a1d3e4f5a6b7c8d9'' ([house], [''realestate/properties/1''])
     = (Reply 403 (Failure ''Not authorized''), [house], [''realestate/properties/1''])"
    by blast
  from delete_forbidden_unchanged[of test_engine "''64b7f0c2a1d3e4f5a6b7c8d9''" "[house]" house owner
         "[''realestate/properties/1'']"] d c
  have 2: "\<exists>p. findById ''64b7f0c2a1d3e4f5a6b7c8d9'' [house] = Some p
          \<and> (agent p = uid owner \<or> role owner = ''admin'')"
    by blast
  from 1 d 2 show ?thesis by blast
qed

text \<open>
  C9. In the status update the status value is checked right after the identifier, before
  the listing is looked up and before the ownership test: with a well-formed identifier and
  a status that is missing or not one of active, sold, pending, rented, the answer is 400
  "Invalid status value" whatever the collection holds and whoever asks, and the
  collection is unchanged.
\<close>

theorem status_validated_first:
  "isValidObjectId E rid \<Longrightarrow> st \<notin> Some ` {''active'', ''sold'', ''pending'', ''rented''} \<Longrightarrow>
     update_status E usr rid st db = (Reply 400 (Failure ''Invalid status value''), db)"
  by (cases st) (auto simp: update_status_def)

theorem status_validated_first_witness:
  "update_status test_engine stranger ''64b7f0c2a1d3e4f5a6b7c8d9'' (Some ''archived'') [house]
     = (Reply 400 (Failure ''Invalid status value''), [house])
   \<and> update_status test_engine stranger ''64b7f0c2a1d3e4f5a6b7c8ff'' (Some ''archived'') []
     = (Reply 400 (Failure ''Invalid status value''), [])
   \<and> update_status test_engine stranger ''64b7f0c2a1d3e4f5a6b7c8d9'' (Some ''sold'') [house]
     = (Reply 403 (Failure ''Not authorized''), [house])
   \<and> update_status test_engine stranger ''64b7f0c2a1d3e4f5a6b7c8ff'' (Some ''sold'') []
     = (Reply 404 (Failure ''Property not found''), [])"
proof -
  have n: "Some ''archived'' \<notin> Some ` {''active'', ''sold'', ''pending'', ''rented''}" by simp
  have v: "isValidObjectId test_engine ''64b7f0c2a1d3e4f5a6b7c8ff''"
    by (simp add: test_engine_def all_digits_def digit_of_def)
  have 3: "update_status test_engine stranger ''64b7f0c2a1d3e4f5a6b7c8d9'' (Some ''sold'') [house]
     = (Reply 403 (Failure ''Not authorized''), [house])"
    using house_id_valid house_found
    by (simp add: update_status_def isOwner_def) (simp add: house_def stranger_def)
  have 4: "update_status test_engine stranger ''64b7f0c2a1d3e4f5a6b7c8ff'' (Some ''sold'') []
     = (Reply 404 (Failure ''Property not found''), [])"
    using v by (simp add: update_status_def findById_def)
  from status_validated_first[OF house_id_valid n, of stranger "[house]"]
       status_validated_first[OF v n, of stranger "[]"] 3 4
  show ?thesis by blast
qed

section \<open>Searching listings\<close>

lemma set_insert_by: "set (insert_by le x xs) = insert x (set xs)"
  by (induction xs) auto

lemma length_insert_by: "length (insert_by le x xs) = Suc (length xs)"
  by (induction xs) auto

lemma set_sort_by: "set (sort_by le xs) = set xs"
  unfolding sort_by_def by (induction xs) (auto simp: set_insert_by)

lemma length_sort_by: "length (sort_by le xs) = length xs"
  unfolding sort_by_def by (induction xs) (auto simp: length_insert_by)

lemma paginate_subset: "paginate s n xs = Some ys \<Longrightarrow> set ys \<subseteq> set xs"
  by (auto simp: paginate_def split: option.splits if_splits
           dest: in_set_takeD in_set_dropD)

text \<open>What a successful search response says about the request that produced it.\<close>

lemma run_search_success:
  assumes "run_search E q p db = Reply 200 (Page env)"
  shows "\<exists>g. cast_ok q \<and> geo_pred E q = Some g
           \<and> r_total env = length (filter (matches E g q) db)
           \<and> paginate (jsnum_mul (jsnum_sub (page_number p) (Fin 1)) (limit_number p)) (limit_number p)
                (sort_docs E (sort_field p) (descending p) (filter (matches E g q) db))
               = Some (r_properties env)
           \<and> r_count env = length (r_properties env)
           \<and> r_page env = page_number p
           \<and> r_pages env = jsnum_ceil (jsnum_div (Fin (of_nat (r_total env))) (limit_number p))"
  using assms
  by (auto simp: run_search_def countDocuments_def find_page_def select_def server_error_def
           split: option.splits if_splits)

lemma run_search_accepted:
  assumes "cast_ok q" "geo_pred E q = Some g"
    and "paginate (jsnum_mul (jsnum_sub (page_number p) (Fin 1)) (limit_number p)) (limit_number p)
                (sort_docs E (sort_field p) (descending p) (filter (matches E g q) db)) = Some props"
  shows "run_search E q p db =
           Reply 200 (Page \<lparr>r_count = length props,
                            r_total = length (filter (matches E g q) db),
                            r_page = page_number p,
                            r_pages = jsnum_ceil (jsnum_div (Fin (of_nat (length (filter (matches E g q) db))))
                                                           (limit_number p)),
                            r_properties = props\<rparr>)"
  using assms
  by (simp add: run_search_def countDocuments_def find_page_def select_def)

lemma run_search_properties:
  assumes "run_search E q p db = Reply 200 (Page env)" "l \<in> set (r_properties env)"
  shows "l \<in> set db \<and> (\<exists>g. matches E g q l)"
proof -
  from run_search_success[OF assms(1)] obtain g where
    g: "paginate (jsnum_mul (jsnum_sub (page_number p) (Fin 1)) (limit_number p)) (limit_number p)
                (sort_docs E (sort_field p) (descending p) (filter (matches E g q) db))
               = Some (r_properties env)" by blast
  from paginate_subset[OF g] assms(2)
  have "l \<in> set (filter (matches E g q) db)"
    by (auto simp: sort_docs_def set_sort_by)
  then show ?thesis by auto
qed

lemma list_properties_search:
  "list_properties rv E p db = Reply 200 (Page env) \<Longrightarrow>
     run_search E (public_query rv p) p db = Reply 200 (Page env)"
  by (simp add: list_properties_def split: if_splits)

lemma list_user_properties_search:
  "list_user_properties rv E (Some usr) p db = Reply 200 (Page env) \<Longrightarrow>
     run_search E (user_query rv (uid usr) p) p db = Reply 200 (Page env)"
  by (simp add: list_user_properties_def server_error_def split: if_splits)

subsection \<open>The amenities filter\<close>

lemma public_query_amenities:
  "q_amenities p = Some s \<Longrightarrow> s \<noteq> [] \<Longrightarrow>
     f_amenities (public_query rv p) = Some (map trim (split CHR '','' s))"
  by (simp add: public_query_def when_given_def)

lemma user_query_amenities:
  "f_amenities (user_query rv u p) = f_amenities (public_query rv p)"
  by (simp add: user_query_def)

lemma matches_all_of:
  "matches E g q l \<Longrightarrow> f_amenities q = Some tags \<Longrightarrow> \<forall>t\<in>set tags. t \<in> set (amenities l)"
  by (simp add: matches_def all_filter_def list_all_iff)

lemma split_never_empty: "split sep s \<noteq> []"
  by (induction s) (auto split: list.splits)

lemma split_pieces: "w \<in> set (split sep s) \<Longrightarrow> sep \<notin> set w"
  by (induction s arbitrary: w) (auto split: if_splits list.splits)

lemma tags_pool_gym: "map trim (split CHR '','' ''pool,gym'') = [''pool'', ''gym'']"
  by (simp add: trim_def is_space_def)

lemma pool_only_query:
  "public_query rv pool_only =
     \<lparr>f_agent = None, f_text = None, f_geo = None, f_location = None, f_type = None,
      f_amenities = Some [''pool''], f_bedrooms = None, f_bathrooms = None, f_status = None,
      f_price = None, f_squareFootage = None\<rparr>"
  by (simp add: public_query_def pool_only_def no_params_def when_given_def range_of_def given_def
        trim_def is_space_def)

lemma pool_only_matches:
  "matches E (\<lambda>c. True) (public_query rv pool_only) l = (''pool'' \<in> set (amenities l))"
  by (simp add: pool_only_query matches_def eq_filter_def all_filter_def range_filter_def)

lemma pool_only_status: "q_status pool_only = None"
  by (simp add: pool_only_def no_params_def)

lemma pool_only_user_matches:
  "matches E (\<lambda>c. True) (user_query rv u pool_only) l = (agent l = u \<and> ''pool'' \<in> set (amenities l))"
  by (simp add: user_query_def pool_only_query pool_only_status matches_def eq_filter_def all_filter_def
        range_filter_def when_given_def)

lemma first_page: "paginate (jsnum_mul (jsnum_sub (Fin 1) (Fin 1)) (Fin 10)) (Fin 10) xs = Some (take 10 xs)"
  by (simp add: paginate_def jsnum_sub_def as_int_def)

lemma pool_only_search:
  assumes "cast_ok q" "geo_pred E q = Some g"
  shows "\<exists>env. run_search E q pool_only db = Reply 200 (Page env)
           \<and> r_total env = length (filter (matches E g q) db)
           \<and> (r_total env \<le> 10 \<longrightarrow> set (r_properties env) = set (filter (matches E g q) db))"
proof -
  have pg: "page_number pool_only = Fin 1" and lm: "limit_number pool_only = Fin 10"
    by (simp_all add: page_number_def limit_number_def pool_only_def no_params_def)
  let ?ms = "filter (matches E g q) db"
  let ?srt = "sort_docs E (sort_field pool_only) (descending pool_only) ?ms"
  have "run_search E q pool_only db =
           Reply 200 (Page \<lparr>r_count = length (take 10 ?srt),
                            r_total = length ?ms,
                            r_page = page_number pool_only,
                            r_pages = jsnum_ceil (jsnum_div (Fin (of_nat (length ?ms))) (limit_number pool_only)),
                            r_properties = take 10 ?srt\<rparr>)"
    by (rule run_search_accepted[OF assms]) (simp add: pg lm first_page)
  moreover have "length ?ms \<le> 10 \<Longrightarrow> set (take 10 ?srt) = set ?ms"
    by (simp add: sort_docs_def length_sort_by set_sort_by)
  ultimately show ?thesis by simp
qed

text \<open>
  C1. On both listing endpoints and in both revisions, when the amenities parameter is a
  non-empty string, a listing satisfies the filter, and can appear in a returned page, only
  if its amenities contain every trimmed piece of the comma-separated parameter. A listing
  whose amenity set is just pool is therefore never in a page answered to
  \<open>amenities=pool,gym\<close>; it satisfies the filter of the query \<open>amenities=pool\<close>, which answers
  200 and returns it whenever the matches fit on the first page.
\<close>

theorem amenities_all_of:
  "(\<forall>s. q_amenities p = Some s \<and> s \<noteq> [] \<longrightarrow>
      (\<forall>l. matches E g (public_query rv p) l \<or> matches E g (user_query rv u p) l \<longrightarrow>
           (\<forall>t\<in>set (map trim (split CHR '','' s)). t \<in> set (amenities l)))
      \<and> (\<forall>env. list_properties rv E p db = Reply 200 (Page env)
                 \<or> list_user_properties rv E (Some usr) p db = Reply 200 (Page env) \<longrightarrow>
           (\<forall>l\<in>set (r_properties env). \<forall>t\<in>set (map trim (split CHR '','' s)). t \<in> set (amenities l))))
   \<and> (\<forall>l env. q_amenities p = Some ''pool,gym'' \<and> set (amenities l) = {''pool''}
          \<and> (list_properties rv E p db = Reply 200 (Page env)
              \<or> list_user_properties rv E (Some usr) p db = Reply 200 (Page env)) \<longrightarrow>
          l \<notin> set (r_properties env))
   \<and> (\<forall>l. set (amenities l) = {''pool''} \<and> l \<in> set db \<longrightarrow>
          matches E (\<lambda>c. True) (public_query rv pool_only) l
          \<and> (\<exists>env. list_properties rv E pool_only db = Reply 200 (Page env)
                 \<and> (r_total env \<le> 10 \<longrightarrow> l \<in> set (r_properties env)))
          \<and> (agent l = uid usr \<longrightarrow>
                matches E (\<lambda>c. True) (user_query rv (uid usr) pool_only) l
                \<and> (\<exists>env. list_user_properties rv E (Some usr) pool_only db = Reply 200 (Page env)
                       \<and> (r_total env \<le> 10 \<longrightarrow> l \<in> set (r_properties env)))))"
proof -
  have filter_level: "\<forall>t\<in>set (map trim (split CHR '','' s)). t \<in> set (amenities l)"
    if "q_amenities p = Some s" "s \<noteq> []"
       "matches E g' (public_query rv p) l \<or> matches E g' (user_query rv u' p) l" for s l g' u'
  proof -
    have fa: "f_amenities (public_query rv p) = Some (map trim (split CHR '','' s))"
      using that(1,2) by (rule public_query_amenities)
    then have fu: "f_amenities (user_query rv u' p) = Some (map trim (split CHR '','' s))"
      by (simp add: user_query_amenities)
    from that(3) show ?thesis
    proof
      assume "matches E g' (public_query rv p) l"
      then show ?thesis using fa by (rule matches_all_of)
    next
      assume "matches E g' (user_query rv u' p) l"
      then show ?thesis using fu by (rule matches_all_of)
    qed
  qed
  have page_level: "\<forall>t\<in>set (map trim (split CHR '','' s)). t \<in> set (amenities l)"
    if "q_amenities p = Some s" "s \<noteq> []"
       "list_properties rv E p db = Reply 200 (Page env)
          \<or> list_user_properties rv E (Some usr) p db = Reply 200 (Page env)"
       "l \<in> set (r_properties env)" for s l env
  proof -
    from that(3) have "(\<exists>g'. matches E g' (public_query rv p) l)
                       \<or> (\<exists>g'. matches E g' (user_query rv (uid usr) p) l)"
      using run_search_properties[OF list_properties_search that(4)]
            run_search_properties[OF list_user_properties_search that(4)] by blast
    then show ?thesis using filter_level[OF that(1,2)] by blast
  qed
  have excluded: "l \<notin> set (r_properties env)"
    if "q_amenities p = Some ''pool,gym''" "set (amenities l) = {''pool''}"
       "list_properties rv E p db = Reply 200 (Page env)
          \<or> list_user_properties rv E (Some usr) p db = Reply 200 (Page env)" for l env
  proof
    assume "l \<in> set (r_properties env)"
    from page_level[OF that(1) _ that(3) this]
    have "\<forall>t\<in>set [''pool'', ''gym'']. t \<in> set (amenities l)"
      unfolding tags_pool_gym by simp
    then have "''gym'' \<in> set (amenities l)" by simp
    with that(2) show False by simp
  qed
  have lp: "\<not> location_throws E pool_only"
    by (simp add: location_throws_def pool_only_def no_params_def)
  have included: "matches E (\<lambda>c. True) (public_query rv pool_only) l
          \<and> (\<exists>env. list_properties rv E pool_only db = Reply 200 (Page env)
                 \<and> (r_total env \<le> 10 \<longrightarrow> l \<in> set (r_properties env)))"
    if "set (amenities l) = {''pool''}" "l \<in> set db" for l
  proof -
    have m: "matches E (\<lambda>c. True) (public_query rv pool_only) l"
      using that(1) by (simp add: pool_only_matches)
    have "cast_ok (public_query rv pool_only)" "geo_pred E (public_query rv pool_only) = Some (\<lambda>c. True)"
      by (simp_all add: pool_only_query cast_ok_def castable_def range_castable_def geo_pred_def)
    from pool_only_search[OF this, of db] m that(2) lp
    show ?thesis by (auto simp: list_properties_def)
  qed
  have included_user: "matches E (\<lambda>c. True) (user_query rv (uid usr) pool_only) l
          \<and> (\<exists>env. list_user_properties rv E (Some usr) pool_only db = Reply 200 (Page env)
                 \<and> (r_total env \<le> 10 \<longrightarrow> l \<in> set (r_properties env)))"
    if "set (amenities l) = {''pool''}" "l \<in> set db" "agent l = uid usr" for l
  proof -
    have m: "matches E (\<lambda>c. True) (user_query rv (uid usr) pool_only) l"
      using that(1,3) by (simp add: pool_only_user_matches)
    have "cast_ok (user_query rv (uid usr) pool_only)"
         "geo_pred E (user_query rv (uid usr) pool_only) = Some (\<lambda>c. True)"
      by (simp_all add: user_query_def pool_only_query pool_only_status when_given_def
            cast_ok_def castable_def range_castable_def geo_pred_def)
    from pool_only_search[OF this, of db] m that(2) lp
    show ?thesis by (auto simp: list_user_properties_def)
  qed
  show ?thesis
  proof (intro conjI allI impI)
    fix s and l :: listing
    assume "q_amenities p = Some s \<and> s \<noteq> []"
      and "matches E g (public_query rv p) l \<or> matches E g (user_query rv u p) l"
    then show "\<forall>t\<in>set (map trim (split CHR '','' s)). t \<in> set (amenities l)"
      using filter_level[of s g l u] by simp
  next
    fix s and env :: envelope
    assume "q_amenities p = Some s \<and> s \<noteq> []"
      and "list_properties rv E p db = Reply 200 (Page env)
             \<or> list_user_properties rv E (Some usr) p db = Reply 200 (Page env)"
    then show "\<forall>l\<in>set (r_properties env). \<forall>t\<in>set (map trim (split CHR '','' s)). t \<in> set (amenities l)"
      using page_level[of s env] by simp
  next
    fix l :: listing and env :: envelope
    assume "q_amenities p = Some ''pool,gym'' \<and> set (amenities l) = {''pool''}
          \<and> (list_properties rv E p db = Reply 200 (Page env)
              \<or> list_user_properties rv E (Some usr) p db = Reply 200 (Page env))"
    then show "l \<notin> set (r_properties env)"
      using excluded[of l env] by simp
  next
    fix l :: listing
    assume "set (amenities l) = {''pool''} \<and> l \<in> set db"
    then show "matches E (\<lambda>c. True) (public_query rv pool_only) l"
      using included[of l] by simp
  next
    fix l :: listing
    assume "set (amenities l) = {''pool''} \<and> l \<in> set db"
    then show "\<exists>env. list_properties rv E pool_only db = Reply 200 (Page env)
                 \<and> (r_total env \<le> 10 \<longrightarrow> l \<in> set (r_properties env))"
      using included[of l] by simp
  next
    fix l :: listing
    assume "set (amenities l) = {''pool''} \<and> l \<in> set db" and "agent l = uid usr"
    then show "matches E (\<lambda>c. True) (user_query rv (uid usr) pool_only) l"
      using included_user[of l] by simp
  next
    fix l :: listing
    assume "set (amenities l) = {''pool''} \<and> l \<in> set db" and "agent l = uid usr"
    then show "\<exists>env. list_user_properties rv E (Some usr) pool_only db = Reply 200 (Page env)
                       \<and> (r_total env \<le> 10 \<longrightarrow> l \<in> set (r_properties env))"
      using included_user[of l] by simp
  qed
qed

lemma house_pool_page:
  "list_properties Near_revision test_engine pool_only [house] =
     Reply 200 (Page \<lparr>r_count = 1, r_total = 1, r_page = Fin 1, r_pages = Fin 1, r_properties = [house]\<rparr>)"
  by code_simp

theorem amenities_all_of_witness:
  "q_amenities pool_gym = Some ''pool,gym'' \<and> set (amenities house) = {''pool''}
   \<and> \<not> matches test_engine (\<lambda>c. True) (public_query Near_revision pool_gym) house
   \<and> list_properties Near_revision test_engine pool_only [house] =
       Reply 200 (Page \<lparr>r_count = 1, r_total = 1, r_page = Fin 1, r_pages = Fin 1, r_properties = [house]\<rparr>)
   \<and> matches test_engine (\<lambda>c. True) (public_query Near_revision pool_only) house"
proof -
  have q: "q_amenities pool_gym = Some ''pool,gym''"
    by (simp add: pool_gym_def no_params_def)
  have a: "set (amenities house) = {''pool''}"
    by (simp add: house_def)
  have n: "\<not> (\<forall>t\<in>set (map trim (split CHR '','' ''pool,gym'')). t \<in> set (amenities house))"
    unfolding tags_pool_gym by (simp add: a)
  note inst = amenities_all_of[of pool_gym test_engine "\<lambda>c. True" Near_revision "uid owner" "[house]" owner]
  from inst q n have 1: "\<not> matches test_engine (\<lambda>c. True) (public_query Near_revision pool_gym) house"
    by blast
  from inst a have 2: "matches test_engine (\<lambda>c. True) (public_query Near_revision pool_only) house"
    by simp
  from q a 1 2 house_pool_page show ?thesis by simp
qed

subsection \<open>The response envelope\<close>












subsection \<open>Numeric parameters that are not numbers\<close>

lemma run_search_rejected: "\<not> cast_ok q \<Longrightarrow> run_search E q p db = server_error"
  by (simp add: run_search_def countDocuments_def select_def)

lemma user_query_cast_ok: "cast_ok (user_query rv u p) = cast_ok (public_query rv p)"
  by (simp add: user_query_def cast_ok_def)

lemma nan_not_castable:
  assumes "Some s \<in> set (numeric_params p)" "s \<noteq> []" "string_to_number s = NaN"
  shows "\<not> cast_ok (public_query rv p)"
proof -
  have w: "when_given (Some s) string_to_number = Some NaN"
    using assms(2,3) by (simp add: when_given_def)
  have g: "given (Some s)" using assms(2) by (simp add: given_def)
  from assms(1) consider "q_priceMin p = Some s" | "q_priceMax p = Some s"
    | "q_squareFootageMin p = Some s" | "q_squareFootageMax p = Some s"
    | "q_bedrooms p = Some s" | "q_bathrooms p = Some s"
    by (auto simp: numeric_params_def)
  then show ?thesis
  proof cases
    case 1
    then have "f_price (public_query rv p) = Some \<lparr>gte = Some NaN, lte = when_given (q_priceMax p) string_to_number\<rparr>"
      using w g by (simp add: public_query_def range_of_def)
    then show ?thesis by (simp add: cast_ok_def range_castable_def castable_def)
  next
    case 2
    then have "f_price (public_query rv p) = Some \<lparr>gte = when_given (q_priceMin p) string_to_number, lte = Some NaN\<rparr>"
      using w g by (simp add: public_query_def range_of_def)
    then show ?thesis by (simp add: cast_ok_def range_castable_def castable_def)
  next
    case 3
    then have "f_squareFootage (public_query rv p)
                 = Some \<lparr>gte = Some NaN, lte = when_given (q_squareFootageMax p) string_to_number\<rparr>"
      using w g by (simp add: public_query_def range_of_def)
    then show ?thesis by (simp add: cast_ok_def range_castable_def castable_def)
  next
    case 4
    then have "f_squareFootage (public_query rv p)
                 = Some \<lparr>gte = when_given (q_squareFootageMin p) string_to_number, lte = Some NaN\<rparr>"
      using w g by (simp add: public_query_def range_of_def)
    then show ?thesis by (simp add: cast_ok_def range_castable_def castable_def)
  next
    case 5
    then have "f_bedrooms (public_query rv p) = Some NaN"
      using w by (simp add: public_query_def)
    then show ?thesis by (simp add: cast_ok_def castable_def)
  next
    case 6
    then have "f_bathrooms (public_query rv p) = Some NaN"
      using w by (simp add: public_query_def)
    then show ?thesis by (simp add: cast_ok_def castable_def)
  qed
qed

lemma when_given_absent_if_empty: "when_given (absent_if_empty v) f = when_given v f"
  by (simp add: when_given_def absent_if_empty_def)

lemma given_absent_if_empty: "given (absent_if_empty v) = given v"
  by (simp add: given_def absent_if_empty_def)

lemma public_query_without_empty: "public_query rv (without_empty_numbers p) = public_query rv p"
  by (simp add: public_query_def without_empty_numbers_def range_of_def
        when_given_absent_if_empty given_absent_if_empty)

lemma user_query_without_empty: "user_query rv u (without_empty_numbers p) = user_query rv u p"
  by (simp add: user_query_def public_query_without_empty) (simp add: without_empty_numbers_def)

lemma paging_without_empty:
  "page_number (without_empty_numbers p) = page_number p"
  "limit_number (without_empty_numbers p) = limit_number p"
  "sort_field (without_empty_numbers p) = sort_field p"
  "descending (without_empty_numbers p) = descending p"
  by (simp_all add: page_number_def limit_number_def sort_field_def descending_def
        without_empty_numbers_def)

lemma run_search_without_empty: "run_search E q (without_empty_numbers p) db = run_search E q p db"
  unfolding run_search_def paging_without_empty by (rule refl)

lemma location_throws_without_empty: "location_throws E (without_empty_numbers p) = location_throws E p"
  by (simp add: location_throws_def without_empty_numbers_def)

text \<open>
  C4, as the code has it. A numeric filter parameter that is present but empty leaves both
  listing endpoints answering exactly as if it were absent. One that is present, not empty
  and not a number is not dropped: it enters the filter as NaN, the filter is rejected, and
  the request ends in the 500 "Server Error" answer (on \<open>GET /\<close>, in no answer at all when
  the location pattern also fails to compile), never in a page of results.
\<close>

theorem unparseable_number_rejected:
  "(\<forall>s. Some s \<in> set (numeric_params p) \<and> s \<noteq> [] \<and> string_to_number s = NaN \<longrightarrow>
       (list_properties rv E p db = Reply 500 (Failure ''Server Error'')
        \<or> list_properties rv E p db = Unhandled)
       \<and> list_user_properties rv E (Some usr) p db = Reply 500 (Failure ''Server Error''))
   \<and> list_properties rv E (without_empty_numbers p) db = list_properties rv E p db
   \<and> list_user_properties rv E u (without_empty_numbers p) db = list_user_properties rv E u p db"
proof -
  have A: "(list_properties rv E p db = Reply 500 (Failure ''Server Error'')
        \<or> list_properties rv E p db = Unhandled)
       \<and> list_user_properties rv E (Some usr) p db = Reply 500 (Failure ''Server Error'')"
    if "Some s \<in> set (numeric_params p) \<and> s \<noteq> [] \<and> string_to_number s = NaN" for s
  proof -
    from that have n: "\<not> cast_ok (public_query rv p)"
      using nan_not_castable[of s p rv] by blast
    then have "\<not> cast_ok (user_query rv (uid usr) p)"
      by (simp add: user_query_cast_ok)
    with n show ?thesis
      by (simp add: list_properties_def list_user_properties_def run_search_rejected server_error_def)
  qed
  have B: "list_properties rv E (without_empty_numbers p) db = list_properties rv E p db"
    by (simp add: list_properties_def public_query_without_empty run_search_without_empty
          location_throws_without_empty)
  have C: "list_user_properties rv E u (without_empty_numbers p) db = list_user_properties rv E u p db"
    unfolding list_user_properties_def user_query_without_empty run_search_without_empty
          location_throws_without_empty by (rule refl)
  from A B C show ?thesis by blast
qed

theorem unparseable_number_rejected_witness:
  "Some ''abc'' \<in> set (numeric_params bedrooms_abc) \<and> string_to_number ''abc'' = NaN
   \<and> list_properties GeoWithin_revision test_engine bedrooms_abc [house] = Reply 500 (Failure ''Server Error'')
   \<and> list_user_properties GeoWithin_revision test_engine (Some owner) bedrooms_abc [house]
        = Reply 500 (Failure ''Server Error'')"
proof -
  have m: "Some ''abc'' \<in> set (numeric_params bedrooms_abc)"
    by (simp add: numeric_params_def bedrooms_abc_def no_params_def)
  have n: "string_to_number ''abc'' = NaN"
    by code_simp
  have u: "list_properties GeoWithin_revision test_engine bedrooms_abc [house] \<noteq> Unhandled"
    by (simp add: list_properties_def location_throws_def bedrooms_abc_def no_params_def
          run_search_def server_error_def split: option.splits)
  from unparseable_number_rejected[of bedrooms_abc GeoWithin_revision test_engine "[house]" owner] m n u
  show ?thesis by auto
qed

text \<open>
  The claim as stated fails: with \<open>bedrooms=abc\<close> the public endpoint answers 500, while
  the same request without the parameter answers 200 with the stored listing.
\<close>

theorem unparseable_number_counterexample:
  "q_bedrooms bedrooms_abc = Some ''abc''
   \<and> bedrooms_abc\<lparr>q_bedrooms := None\<rparr> = no_params
   \<and> list_properties Near_revision test_engine bedrooms_abc [house] = Reply 500 (Failure ''Server Error'')
   \<and> list_properties Near_revision test_engine no_params [house] =
       Reply 200 (Page \<lparr>r_count = 1, r_total = 1, r_page = Fin 1, r_pages = Fin 1, r_properties = [house]\<rparr>)"
proof -
  have 1: "q_bedrooms bedrooms_abc = Some ''abc'' \<and> bedrooms_abc\<lparr>q_bedrooms := None\<rparr> = no_params"
    by (simp add: bedrooms_abc_def no_params_def)
  have 2: "list_properties Near_revision test_engine bedrooms_abc [house] = Reply 500 (Failure ''Server Error'')"
    by code_simp
  have 3: "list_properties Near_revision test_engine no_params [house] =
       Reply 200 (Page \<lparr>r_count = 1, r_total = 1, r_page = Fin 1, r_pages = Fin 1, r_properties = [house]\<rparr>)"
    by code_simp
  from 1 2 3 show ?thesis by blast
qed

section \<open>Coordinates on create and update\<close>









section \<open>The location filter\<close>

lemma parse_literals:
  "\<forall>c\<in>set src. atom_of c = Some (Lit c) \<Longrightarrow> parse_simple src = Some (map Lit src)"
  by (induction src) auto

lemma matches_here_prefix:
  "matches_here (map Lit xs) s = prefix (map fold_case xs) (map fold_case s)"
proof (induction xs arbitrary: s)
  case Nil
  then show ?case by simp
next
  case (Cons x xs)
  then show ?case by (cases s) auto
qed

lemma matches_somewhere_sublist:
  "matches_somewhere (map Lit xs) s = sublist (map fold_case xs) (map fold_case s)"
proof (induction s)
  case Nil
  then show ?case by (cases xs) auto
next
  case (Cons c s)
  then show ?case
    by (simp only: matches_somewhere.simps matches_here_prefix list.map sublist_Cons_right)
qed

text \<open>
  On a source without any syntax character the regular expression is the case-insensitive
  substring test.
\<close>

lemma literal_source_is_substring:
  assumes "\<forall>c\<in>set src. c \<notin> set syntax_chars \<and> (of_char c :: int) < 128"
  shows "simple_regexp_test src s = Some (ci_substring src s)"
proof -
  have dot: "CHR ''.'' \<in> set syntax_chars"
    by (simp add: syntax_chars_def)
  have "\<forall>c\<in>set src. atom_of c = Some (Lit c)"
  proof
    fix c assume "c \<in> set src"
    with assms have c: "c \<notin> set syntax_chars" "(of_char c :: int) < 128" by auto
    with dot have "c \<noteq> CHR ''.''" by blast
    with c show "atom_of c = Some (Lit c)" by (simp add: atom_of_def)
  qed
  then show ?thesis
    by (simp add: simple_regexp_test_def parse_literals matches_somewhere_sublist ci_substring_def)
qed

lemma dot_not_in_lagos: "\<not> ci_substring ''.'' ''Lagos''"
  by code_simp

text \<open>
  C5. The location filter is the regular expression built from the parameter, so a
  parameter with a syntax character is not a substring test: the filter \<open>.\<close> matches the
  location \<open>Lagos\<close>, in which no dot occurs, and the public endpoint returns the listing.
\<close>

theorem location_filter_wildcard:
  "simple_regexp_test ''.'' ''Lagos'' = Some True
   \<and> \<not> ci_substring ''.'' ''Lagos''
   \<and> location house = ''Lagos''
   \<and> list_properties GeoWithin_revision test_engine dot_location [house] =
       Reply 200 (Page \<lparr>r_count = 1, r_total = 1, r_page = Fin 1, r_pages = Fin 1, r_properties = [house]\<rparr>)"
proof -
  have 1: "simple_regexp_test ''.'' ''Lagos'' = Some True"
    by code_simp
  have 2: "location house = ''Lagos''"
    by (simp add: house_def)
  have 3: "list_properties GeoWithin_revision test_engine dot_location [house] =
       Reply 200 (Page \<lparr>r_count = 1, r_total = 1, r_page = Fin 1, r_pages = Fin 1, r_properties = [house]\<rparr>)"
    by code_simp
  from 1 dot_not_in_lagos 2 3 show ?thesis by blast
qed

end
